theory Spec2Isabelle
  imports Main "HOL-Library.Sublist"
begin

section \<open>The platform objects read by \<open>autobot/github.py\<close>\<close>

text \<open>
  The class \<open>GitHubAPI\<close> only reads attributes of objects handed out by the
  platform client. The objects are modelled as a snapshot: a record per kind of
  object, holding the value each attribute or navigational call yields. A fetch that
  fails raises inside the client library; the snapshot holds the values of the
  fetches that succeed.

  A timestamp is an aware \<open>datetime\<close>; it is modelled as the number of microseconds
  since the epoch in UTC, which is the resolution of Python's \<open>datetime\<close>.
  Subtracting two aware datetimes gives a \<open>timedelta\<close>, modelled as a number of
  microseconds as well.
\<close>

type_synonym datetime = int
type_synonym timedelta = int

record user =
  login :: string
  url :: string

record label =
  label_name :: string
  label_color :: string
  label_url :: string

text \<open>
  \<open>check_mentions\<close> is applied to comments, pull requests and issues alike and reads
  only \<open>body\<close>. The attributes shared by the three kinds of object form the base
  record, which is the record of a comment; pull requests and issues extend it.
  \<open>body\<close> is \<open>None\<close> or a \<open>str\<close>.
\<close>

record subject =
  body :: "string option"
  html_url :: string
  created_at :: datetime
  user :: user

type_synonym comment = subject

record item = subject +
  number :: nat
  title :: string
  state :: string

record issue = item +
  labels :: "label list"
  comments :: "comment list"

text \<open>
  \<open>mergeable\<close> is the attribute read after \<open>pr.refresh()\<close>: \<open>None\<close>, \<open>True\<close> or
  \<open>False\<close>. \<open>pr_issue\<close> is the result of the call \<open>pr.issue()\<close> (the
  name \<open>issue\<close> is the one of the parameters of the issue methods).
\<close>

record pull_request = item +
  updated_at :: datetime
  issue_url :: string
  mergeable :: "bool option"
  requested_reviewers :: "user list"
  pr_issue :: "issue option"
  review_comments :: "comment list"
  issue_comments :: "comment list"

record repository =
  clone_url :: string
  repo_created_at :: datetime
  description :: "string option"
  pull_requests :: "pull_request list"
  issues :: "issue list"

text \<open>
  The object \<open>self\<close>: the owner, the client (the call
  \<open>GH_CLIENT.repository(owner, name)\<close>) and the instant that
  \<open>datetime.utcnow().replace(tzinfo=pytz.utc)\<close> yields. The clock is not an
  attribute in the source; it is kept here so that every check takes \<open>self\<close>, the
  subject and the maintainers, as in the source. One run reads one instant.
\<close>

record github_api =
  OWNER :: string
  GH_CLIENT :: "string \<Rightarrow> string \<Rightarrow> repository"
  utcnow :: datetime

section \<open>The report structure\<close>

text \<open>
  The report is a nest of dictionaries and lists of three shapes:
  \<^item> \<open>{label: targets}\<close>, the result of a check, is \<open>Action label targets\<close>;
  \<^item> \<open>{key: [node, ...]}\<close> with \<open>key\<close> one of \<open>review_comments\<close>,
    \<open>issue_comments\<close>, \<open>comments\<close>, \<open>prs\<close>, \<open>issues\<close>, \<open>repos\<close> is
    \<open>Group key nodes\<close>;
  \<^item> \<open>{"actions": report, **info}\<close> is \<open>Node report info\<close>.
  The dictionaries that the \<open>fetch_*_info\<close> methods build are the constructors of
  \<open>info\<close>, the arguments in the order of the keys in the source; the dictionary
  \<open>{"name": .., "url": ..}\<close> of a user is a pair, the one of a label a triple
  (name, color, url).
\<close>

datatype info =
    CommentInfo string datetime "string \<times> string"
  | PrInfo nat string string datetime "string option" string "string \<times> string" string
  | IssueInfo nat string string datetime "string option" string
      "(string \<times> string \<times> string) list" "string \<times> string"
  | RepoInfo string datetime "string option"

datatype entry = Action string "string list" | Group string "node list"
  and node = Node (actions: "entry list") (node_info: info)

datatype py_error = IndexError

section \<open>Python primitives\<close>

text \<open>Iterating over a \<open>str\<close> yields its characters as strings of length one.\<close>

definition iter_str :: "string \<Rightarrow> string list" where
  "iter_str s = map (\<lambda>c. [c]) s"

text \<open>\<open>xs[i]\<close>: a negative index counts from the end, out of range raises.\<close>

definition getitem :: "'a list \<Rightarrow> int \<Rightarrow> py_error + 'a" where
  "getitem xs i =
     (if 0 \<le> i \<and> i < int (length xs) then Inr (xs ! nat i)
      else if i < 0 \<and> - i \<le> int (length xs) then Inr (xs ! nat (int (length xs) + i))
      else Inl IndexError)"

text \<open>
  \<open>timedelta.days\<close>: a \<open>timedelta\<close> is normalised to days, seconds in
  \<open>[0, 86400)\<close> and microseconds in \<open>[0, 10^6)\<close>, so \<open>days\<close> is the floor of the
  duration over one day.
\<close>

definition day :: timedelta where
  "day = 86400000000"

definition days :: "timedelta \<Rightarrow> int" where
  "days d = d div day"

section \<open>Info extractors\<close>

definition fetch_comment_info :: "github_api \<Rightarrow> comment \<Rightarrow> info" where
  "fetch_comment_info self comment =
     CommentInfo (html_url comment) (created_at comment)
       (login (user comment), url (user comment))"

definition fetch_pr_info :: "github_api \<Rightarrow> pull_request \<Rightarrow> info" where
  "fetch_pr_info self pr =
     PrInfo (number pr) (html_url pr) (title pr) (created_at pr) (body pr) (state pr)
       (login (user pr), url (user pr)) (issue_url pr)"

definition fetch_issue_info :: "github_api \<Rightarrow> issue \<Rightarrow> info" where
  "fetch_issue_info self issue =
     IssueInfo (number issue) (html_url issue) (title issue) (created_at issue)
       (body issue) (state issue)
       (map (\<lambda>label. (label_name label, label_color label, label_url label)) (labels issue))
       (login (user issue), url (user issue))"

definition fetch_repo_info :: "github_api \<Rightarrow> repository \<Rightarrow> info" where
  "fetch_repo_info self repo =
     RepoInfo (clone_url repo) (repo_created_at repo) (description repo)"

section \<open>Predicate checks\<close>

text \<open>
  \<open>m.body and (login in [mention[1:] for mention in m.body])\<close>: \<open>None\<close> and the
  empty string are falsy, and then the comprehension is not evaluated.
\<close>

definition check_mentions :: "github_api \<Rightarrow> 'a subject_scheme \<Rightarrow> string list \<Rightarrow> entry list" where
  "check_mentions self m maintainers =
     (let mentions =
        filter (\<lambda>login.
            case body m of
              None \<Rightarrow> False
            | Some b \<Rightarrow> b \<noteq> [] \<and> login \<in> set (map (\<lambda>mention. drop 1 mention) (iter_str b)))
          maintainers
      in if mentions \<noteq> [] then [Action ''You've been mentioned here!'' mentions] else [])"

definition check_mergeable :: "github_api \<Rightarrow> pull_request \<Rightarrow> string list \<Rightarrow> entry list" where
  "check_mergeable self pr maintainers =
     (if mergeable pr = Some True then [Action ''Merge this!'' maintainers] else [])"

definition check_review :: "github_api \<Rightarrow> pull_request \<Rightarrow> string list \<Rightarrow> entry list" where
  "check_review self pr maintainers =
     (let requested =
        filter (\<lambda>l. l \<in> set (map (\<lambda>reviewer. login reviewer) (requested_reviewers pr)))
          maintainers
      in if requested \<noteq> [] then [Action ''Review this!'' requested] else [])"

definition check_if_connected_with_issue ::
    "github_api \<Rightarrow> pull_request \<Rightarrow> string list \<Rightarrow> entry list" where
  "check_if_connected_with_issue self pr maintainers =
     (if pr_issue pr = None then [Action ''Resolve not connected with issue!'' maintainers]
      else [])"

definition check_close :: "github_api \<Rightarrow> pull_request \<Rightarrow> string list \<Rightarrow> entry list" where
  "check_close self pr maintainers =
     (if days (utcnow self - updated_at pr) \<ge> 3 * 30
      then [Action ''Close this!'' maintainers] else [])"

definition check_follow_up :: "github_api \<Rightarrow> pull_request \<Rightarrow> string list \<Rightarrow> entry list" where
  "check_follow_up self pr maintainers =
     (if sublist ''WIP'' (title pr) \<and> days (utcnow self - updated_at pr) \<ge> 1 * 30
      then [Action ''Follow up on this!'' maintainers] else [])"

definition check_labels :: "github_api \<Rightarrow> issue \<Rightarrow> string list \<Rightarrow> entry list" where
  "check_labels self issue maintainers =
     (if filter (\<lambda>label. label_name label = ''RFC'') (labels issue) \<noteq> []
      then [Action ''Skip this for now!'' maintainers] else [])"

text \<open>
  \<open>comments and comments[-1].user.login not in maintainers\<close>: the index is
  evaluated only when \<open>comments\<close> is truthy; an \<open>IndexError\<close> would leave the method.
\<close>

definition check_comments ::
    "github_api \<Rightarrow> issue \<Rightarrow> string list \<Rightarrow> py_error + entry list" where
  "check_comments self issue maintainers =
     (let cs = comments issue in
      if cs = [] then Inr []
      else case getitem cs (- 1) of
             Inl e \<Rightarrow> Inl e
           | Inr c \<Rightarrow>
               if login (user c) \<notin> set maintainers
               then Inr [Action ''Follow up on this!'' maintainers] else Inr [])"

section \<open>Report assembly\<close>

text \<open>
  The class-level lists of checks. The checks of an issue share one type, the one of
  \<open>check_comments\<close>, which is the only one that indexes a list.
\<close>

definition comment_filters :: "(github_api \<Rightarrow> comment \<Rightarrow> string list \<Rightarrow> entry list) list" where
  "comment_filters = [check_mentions]"

definition pr_filters :: "(github_api \<Rightarrow> pull_request \<Rightarrow> string list \<Rightarrow> entry list) list" where
  "pr_filters =
     [check_mergeable, check_review, check_if_connected_with_issue, check_mentions,
      check_close, check_follow_up]"

definition issue_filters ::
    "(github_api \<Rightarrow> issue \<Rightarrow> string list \<Rightarrow> py_error + entry list) list" where
  "issue_filters =
     [\<lambda>self issue maintainers. Inr (check_labels self issue maintainers),
      check_comments,
      \<lambda>self issue maintainers. Inr (check_mentions self issue maintainers)]"

text \<open>The loop \<open>for f in filters: res += f(self, x, maintainers)\<close>.\<close>

fun run_filters ::
    "('s \<Rightarrow> 'x \<Rightarrow> string list \<Rightarrow> entry list) list \<Rightarrow> 's \<Rightarrow> 'x \<Rightarrow> string list \<Rightarrow>
       entry list \<Rightarrow> entry list" where
  "run_filters [] self x maintainers res = res"
| "run_filters (f # fs) self x maintainers res =
     run_filters fs self x maintainers (res @ f self x maintainers)"

fun run_filters_exc ::
    "('s \<Rightarrow> 'x \<Rightarrow> string list \<Rightarrow> py_error + entry list) list \<Rightarrow> 's \<Rightarrow> 'x \<Rightarrow> string list \<Rightarrow>
       entry list \<Rightarrow> py_error + entry list" where
  "run_filters_exc [] self x maintainers res = Inr res"
| "run_filters_exc (f # fs) self x maintainers res =
     (case f self x maintainers of
        Inl e \<Rightarrow> Inl e
      | Inr r \<Rightarrow> run_filters_exc fs self x maintainers (res @ r))"

definition comment_report :: "github_api \<Rightarrow> comment \<Rightarrow> string list \<Rightarrow> entry list" where
  "comment_report self comment maintainers =
     run_filters comment_filters self comment maintainers []"

text \<open>
  The loop over the comments of a pull request or an issue, which the source writes
  three times, for the keys \<open>review_comments\<close>, \<open>issue_comments\<close> and \<open>comments\<close>:
  \<open>acc\<close> is the list \<open>actions[key]\<close>.
\<close>

fun comment_nodes :: "github_api \<Rightarrow> comment list \<Rightarrow> string list \<Rightarrow> node list \<Rightarrow> node list" where
  "comment_nodes self [] maintainers acc = acc"
| "comment_nodes self (comment # cs) maintainers acc =
     (let report = comment_report self comment maintainers
      in comment_nodes self cs maintainers
           (if report \<noteq> [] then acc @ [Node report (fetch_comment_info self comment)]
            else acc))"

text \<open>\<open>res.append(actions) if actions[key] else None\<close>.\<close>

definition append_group :: "string \<Rightarrow> node list \<Rightarrow> entry list \<Rightarrow> entry list" where
  "append_group key nodes res = (if nodes \<noteq> [] then res @ [Group key nodes] else res)"

definition pr_report :: "github_api \<Rightarrow> pull_request \<Rightarrow> string list \<Rightarrow> entry list" where
  "pr_report self pr maintainers =
     (let res = run_filters pr_filters self pr maintainers [];
          res = append_group ''review_comments''
                  (comment_nodes self (review_comments pr) maintainers []) res;
          res = append_group ''issue_comments''
                  (comment_nodes self (issue_comments pr) maintainers []) res
      in res)"

definition issue_report :: "github_api \<Rightarrow> issue \<Rightarrow> string list \<Rightarrow> py_error + entry list" where
  "issue_report self issue maintainers =
     (case run_filters_exc issue_filters self issue maintainers [] of
        Inl e \<Rightarrow> Inl e
      | Inr res \<Rightarrow>
          Inr (append_group ''comments''
                 (comment_nodes self (comments issue) maintainers []) res))"

fun pr_nodes :: "github_api \<Rightarrow> pull_request list \<Rightarrow> string list \<Rightarrow> node list \<Rightarrow> node list" where
  "pr_nodes self [] maintainers acc = acc"
| "pr_nodes self (pr # prs) maintainers acc =
     (if state pr \<noteq> ''open'' then pr_nodes self prs maintainers acc
      else let report = pr_report self pr maintainers
           in pr_nodes self prs maintainers
                (if report \<noteq> [] then acc @ [Node report (fetch_pr_info self pr)] else acc))"

fun issue_nodes ::
    "github_api \<Rightarrow> issue list \<Rightarrow> string list \<Rightarrow> node list \<Rightarrow> py_error + node list" where
  "issue_nodes self [] maintainers acc = Inr acc"
| "issue_nodes self (issue # is) maintainers acc =
     (if state issue \<noteq> ''open'' then issue_nodes self is maintainers acc
      else case issue_report self issue maintainers of
             Inl e \<Rightarrow> Inl e
           | Inr report \<Rightarrow>
               issue_nodes self is maintainers
                 (if report \<noteq> [] then acc @ [Node report (fetch_issue_info self issue)]
                  else acc))"

definition repo_report ::
    "github_api \<Rightarrow> repository \<Rightarrow> string list \<Rightarrow> py_error + entry list" where
  "repo_report self repo maintainers =
     (let res = append_group ''prs'' (pr_nodes self (pull_requests repo) maintainers []) []
      in case issue_nodes self (issues repo) maintainers [] of
           Inl e \<Rightarrow> Inl e
         | Inr nodes \<Rightarrow> Inr (append_group ''issues'' nodes res))"

text \<open>
  \<open>repos\<close> is a dictionary from the name of a repository to its maintainers: the list
  of its items, in the order of iteration, \<open>repos[repo]\<close> being the second component.
\<close>

fun repo_nodes ::
    "github_api \<Rightarrow> (string \<times> string list) list \<Rightarrow> node list \<Rightarrow> py_error + node list" where
  "repo_nodes self [] acc = Inr acc"
| "repo_nodes self ((repo, maintainers) # rest) acc =
     (let repo_obj = GH_CLIENT self (OWNER self) repo
      in case repo_report self repo_obj maintainers of
           Inl e \<Rightarrow> Inl e
         | Inr report \<Rightarrow>
             repo_nodes self rest
               (if report \<noteq> [] then acc @ [Node report (fetch_repo_info self repo_obj)]
                else acc))"

text \<open>
  The body of \<open>report\<close>. The decorator \<open>lazy_func\<close> comes from the package
  \<open>lazy_load\<close>, which is not part of the sources; it is not modelled.
\<close>

definition report :: "github_api \<Rightarrow> (string \<times> string list) list \<Rightarrow> py_error + entry list" where
  "report self repos =
     (case repo_nodes self repos [] of
        Inl e \<Rightarrow> Inl e
      | Inr nodes \<Rightarrow> Inr (append_group ''repos'' nodes []))"

section \<open>Properties of a report\<close>

text \<open>
  A report is pruned when every group in it holds at least one node and every node in
  it has a non-empty list of actions.
\<close>

fun pruned_entry :: "entry \<Rightarrow> bool" and pruned_node :: "node \<Rightarrow> bool" where
  "pruned_entry (Action l targets) = True"
| "pruned_entry (Group key nodes) = (nodes \<noteq> [] \<and> list_all pruned_node nodes)"
| "pruned_node (Node acts i) = (acts \<noteq> [] \<and> list_all pruned_entry acts)"

text \<open>
  The result of a check is within the maintainers when it is empty or one
  \<open>Action\<close> whose targets are all maintainers.
\<close>

fun within :: "string list \<Rightarrow> entry list \<Rightarrow> bool" where
  "within maintainers [] = True"
| "within maintainers [Action l targets] = (set targets \<subseteq> set maintainers)"
| "within maintainers res = False"

text \<open>The platform on which the repository \<open>name\<close> of the owner is \<open>repo\<close>.\<close>

definition replace_repository :: "github_api \<Rightarrow> string \<Rightarrow> repository \<Rightarrow> github_api" where
  "replace_repository self name repo =
     self\<lparr>GH_CLIENT := \<lambda>owner n. if owner = OWNER self \<and> n = name then repo
                                 else GH_CLIENT self owner n\<rparr>"

text \<open>
  The mention matching that the specification words: every substring of the body that
  starts with \<open>@\<close> is a candidate, and a maintainer matches when the account name is
  a candidate without its leading \<open>@\<close>. This definition follows the specification,
  not the source; it is what \<open>check_mentions\<close> is compared with.
\<close>

definition spec_check_mentions :: "'a subject_scheme \<Rightarrow> string list \<Rightarrow> entry list" where
  "spec_check_mentions m maintainers =
     (let mentions =
        filter (\<lambda>l. case body m of
                       None \<Rightarrow> False
                     | Some b \<Rightarrow> sublist (CHR ''@'' # l) b)
          maintainers
      in if mentions \<noteq> [] then [Action ''You've been mentioned here!'' mentions] else [])"

section \<open>Sample objects\<close>

definition sample_user :: "string \<Rightarrow> user" where
  "sample_user l = \<lparr>login = l, url = ''https://api.github.com/users/'' @ l\<rparr>"

definition sample_comment :: "string \<Rightarrow> string option \<Rightarrow> comment" where
  "sample_comment author b =
     \<lparr>body = b, html_url = ''https://github.com/o/r1/issues/5#c'',
      created_at = 1546300800000000, user = sample_user author\<rparr>"

definition sample_issue :: "label list \<Rightarrow> comment list \<Rightarrow> issue" where
  "sample_issue ls cs =
     \<lparr>body = None, html_url = ''https://github.com/o/r1/issues/5'',
      created_at = 1546300800000000, user = sample_user ''dave'',
      number = 5, title = ''Crash on start'', state = ''open'',
      labels = ls, comments = cs\<rparr>"

definition sample_pr :: "datetime \<Rightarrow> comment list \<Rightarrow> pull_request" where
  "sample_pr updated cs =
     \<lparr>body = Some ''Fixes the crash'', html_url = ''https://github.com/o/r1/pull/7'',
      created_at = 1546300800000000, user = sample_user ''dave'',
      number = 7, title = ''Fix crash'', state = ''open'',
      updated_at = updated, issue_url = ''https://api.github.com/repos/o/r1/issues/7'',
      mergeable = Some False, requested_reviewers = [],
      pr_issue = Some (sample_issue [] []), review_comments = cs, issue_comments = []\<rparr>"

definition sample_repo :: "pull_request list \<Rightarrow> issue list \<Rightarrow> repository" where
  "sample_repo prs is =
     \<lparr>clone_url = ''https://github.com/o/r1.git'', repo_created_at = 1420070400000000,
      description = None, pull_requests = prs, issues = is\<rparr>"

definition sample_api :: "datetime \<Rightarrow> repository \<Rightarrow> github_api" where
  "sample_api now repo = \<lparr>OWNER = ''o'', GH_CLIENT = (\<lambda>owner name. repo), utcnow = now\<rparr>"

text \<open>
  A repository at day 100 after the epoch with two open pull requests, one updated the
  day before and one not updated since the epoch, and one open issue labelled
  \<open>RFC\<close> whose only comment is by somebody who is not a maintainer.
\<close>

definition sample_now :: datetime where
  "sample_now = 8640000000000"

definition stale_pr :: pull_request where
  "stale_pr = sample_pr 0 []"

definition silent_pr :: pull_request where
  "silent_pr =
     (sample_pr 8553600000000 [sample_comment ''carol'' (Some ''looks fine'')])
       \<lparr>number := 8\<rparr>"

definition rfc_issue :: issue where
  "rfc_issue =
     sample_issue
       [\<lparr>label_name = ''RFC'', label_color = ''ededed'',
         label_url = ''https://api.github.com/repos/o/r1/labels/RFC''\<rparr>]
       [sample_comment ''carol'' (Some ''any news?'')]"

definition sample_platform :: github_api where
  "sample_platform = sample_api sample_now (sample_repo [silent_pr, stale_pr] [rfc_issue])"

section \<open>The mentions check\<close>

lemma stripped_chars: "b \<noteq> [] \<Longrightarrow> set (map (\<lambda>mention. drop 1 mention) (iter_str b)) = {[]}"
  by (cases b) (auto simp: iter_str_def)

lemma check_mentions_eq:
  "check_mentions self m maintainers =
     (if body m = None \<or> body m = Some [] then []
      else if filter (\<lambda>l. l = []) maintainers \<noteq> []
           then [Action ''You've been mentioned here!'' (filter (\<lambda>l. l = []) maintainers)]
           else [])"
proof (cases "body m")
  case None
  then show ?thesis by (simp add: check_mentions_def)
next
  case (Some b)
  show ?thesis
  proof (cases "b = []")
    case True
    with Some show ?thesis by (simp add: check_mentions_def)
  next
    case False
    then have "set (map (\<lambda>mention. drop 1 mention) (iter_str b)) = {[]}"
      by (rule stripped_chars)
    then have "\<And>l. (l \<in> set (map (\<lambda>mention. drop 1 mention) (iter_str b))) = (l = [])"
      by simp
    with Some False show ?thesis
      by (simp add: check_mentions_def Let_def)
  qed
qed

text \<open>
  C1. The claim: on a non-empty body the mentions check fires exactly when the body
  holds an \<open>@maintainer\<close> token of some maintainer, and then returns the label
  \<open>You've been mentioned here!\<close> with the matched maintainers. The source does not do
  so: on the body \<open>@alice please review\<close> and the maintainer \<open>alice\<close> the method
  returns no action, where the matching that the specification words returns the
  action for \<open>alice\<close>.
\<close>

theorem check_mentions_misses_mention:
  "check_mentions (sample_api 0 (sample_repo [] []))
     (sample_comment ''carol'' (Some ''@alice please review'')) [''alice''] = []
   \<and> spec_check_mentions
       (sample_comment ''carol'' (Some ''@alice please review'')) [''alice'']
     = [Action ''You've been mentioned here!'' [''alice'']]"
  by (simp add: check_mentions_def spec_check_mentions_def sample_comment_def iter_str_def)

text \<open>
  C7. A subject whose body is absent (\<open>None\<close>) or the empty string gets no action
  from the mentions check, whatever the maintainers are.
\<close>

theorem check_mentions_no_body:
  "body m = None \<or> body m = Some '''' \<Longrightarrow> check_mentions self m maintainers = []"
  by (auto simp: check_mentions_def)

theorem check_mentions_no_body_witness:
  "check_mentions (sample_api 0 (sample_repo [] []))
     (sample_comment ''carol'' None) ['''', ''alice''] = []
   \<and> check_mentions (sample_api 0 (sample_repo [] []))
       (sample_comment ''carol'' (Some '''')) ['''', ''alice''] = []"
  using check_mentions_no_body [of "sample_comment ''carol'' None"
          "sample_api 0 (sample_repo [] [])" "['''', ''alice'']"]
        check_mentions_no_body [of "sample_comment ''carol'' (Some '''')"
          "sample_api 0 (sample_repo [] [])" "['''', ''alice'']"]
  by (simp add: sample_comment_def)

text \<open>
  C9. As implemented, every mention candidate is one character of the body without
  its first character, that is the empty string; so when no maintainer's account name
  is the empty string, the mentions check returns no action on any subject.
\<close>

theorem check_mentions_only_empty_login:
  assumes "'''' \<notin> set maintainers"
  shows "check_mentions self m maintainers = []
         \<and> list_all (\<lambda>candidate. candidate = '''')
             (map (\<lambda>mention. drop 1 mention) (iter_str b))"
proof -
  from assms have "filter (\<lambda>l. l = []) maintainers = []"
    by (auto simp: filter_empty_conv)
  then have "check_mentions self m maintainers = []"
    by (simp add: check_mentions_eq)
  moreover have "list_all (\<lambda>candidate. candidate = '''')
      (map (\<lambda>mention. drop 1 mention) (iter_str b))"
    by (simp add: iter_str_def list_all_iff)
  ultimately show ?thesis by simp
qed

theorem check_mentions_only_empty_login_witness:
  "'''' \<notin> set [''alice'', ''bob'']
   \<and> check_mentions (sample_api 0 (sample_repo [] []))
       (sample_comment ''carol'' (Some ''@alice and @bob, have a look'')) [''alice'', ''bob'']
     = []
   \<and> map (\<lambda>mention. drop 1 mention) (iter_str ''@bob'') = ['''', '''', '''', '''']"
  using check_mentions_only_empty_login [of "[''alice'', ''bob'']"
          "sample_api 0 (sample_repo [] [])"
          "sample_comment ''carol'' (Some ''@alice and @bob, have a look'')" "''@bob''"]
  by (simp add: iter_str_def)

section \<open>The stale check\<close>

lemma days_ge_iff: "(n \<le> days d) = (n * day \<le> d)"
  unfolding days_def day_def by arith

text \<open>
  C4, as stated: a pull request updated exactly 90 days before now does not make the
  stale check fire. The source compares the days with \<open>>= 3 * 30\<close>, so the check
  fires there: a pull request updated on 2019-01-01 and checked on 2019-04-01, at the
  same time of the day.
\<close>

theorem check_close_at_90_days_counterexample:
  "utcnow (sample_api 1554076800000000 (sample_repo [] []))
     - updated_at (sample_pr 1546300800000000 []) = 90 * day
   \<and> check_close (sample_api 1554076800000000 (sample_repo [] []))
       (sample_pr 1546300800000000 []) [''alice''] \<noteq> []"
  by (simp add: check_close_def days_def day_def sample_api_def sample_pr_def)

text \<open>
  C4, amended: for every pull request whose \<open>updated_at\<close> is exactly 90 days before
  now, the stale check fires and returns \<open>Close this!\<close> for all maintainers.
\<close>

theorem check_close_at_90_days:
  "utcnow self - updated_at pr = 90 * day \<Longrightarrow>
   check_close self pr maintainers = [Action ''Close this!'' maintainers]"
  by (simp add: check_close_def days_ge_iff)

theorem check_close_at_90_days_witness:
  "utcnow (sample_api 7776000000000 (sample_repo [] [])) - updated_at (sample_pr 0 [])
     = 90 * day
   \<and> check_close (sample_api 7776000000000 (sample_repo [] [])) (sample_pr 0 [])
       [''alice'', ''bob'']
     = [Action ''Close this!'' [''alice'', ''bob'']]"
proof -
  have h: "utcnow (sample_api 7776000000000 (sample_repo [] []))
             - updated_at (sample_pr 0 []) = 90 * day"
    by (simp add: sample_api_def sample_pr_def day_def)
  from h check_close_at_90_days [OF h, of "[''alice'', ''bob'']"] show ?thesis
    by simp
qed

text \<open>
  C5. The stale check fires exactly when \<open>now - updated_at\<close> is at least 90 days (the
  source reads the whole days of the difference, which is the same), and then it
  returns \<open>Close this!\<close> for all maintainers of the list.
\<close>

theorem check_close_iff:
  "check_close self pr maintainers =
     (if 90 * day \<le> utcnow self - updated_at pr
      then [Action ''Close this!'' maintainers] else [])"
  by (simp add: check_close_def days_ge_iff)

theorem check_close_iff_witness:
  "check_close (sample_api 7775999999999 (sample_repo [] [])) (sample_pr 0 []) [''alice'']
     = []
   \<and> check_close (sample_api 7776000000001 (sample_repo [] [])) (sample_pr 0 []) [''alice'']
     = [Action ''Close this!'' [''alice'']]"
  using check_close_iff [of "sample_api 7775999999999 (sample_repo [] [])" "sample_pr 0 []"
          "[''alice'']"]
        check_close_iff [of "sample_api 7776000000001 (sample_repo [] [])" "sample_pr 0 []"
          "[''alice'']"]
  by (simp add: sample_api_def sample_pr_def day_def)

section \<open>The stale-comment check\<close>

lemma getitem_last: "xs \<noteq> [] \<Longrightarrow> getitem xs (- 1) = Inr (last xs)"
  by (cases xs rule: rev_cases) (auto simp: getitem_def nth_append)

lemma check_comments_eq:
  "check_comments self issue maintainers =
     Inr (if comments issue \<noteq> [] \<and> login (user (last (comments issue))) \<notin> set maintainers
          then [Action ''Follow up on this!'' maintainers] else [])"
  by (simp add: check_comments_def Let_def getitem_last)

text \<open>
  C6. For an issue with at least one comment: when the author of the last comment is
  a maintainer the stale-comment check returns no action, otherwise it returns
  \<open>Follow up on this!\<close> for all maintainers of the list.
\<close>

theorem check_comments_last_author:
  "comments issue \<noteq> [] \<Longrightarrow>
   check_comments self issue maintainers =
     (if login (user (last (comments issue))) \<in> set maintainers then Inr []
      else Inr [Action ''Follow up on this!'' maintainers])"
  by (simp add: check_comments_def Let_def getitem_last)

theorem check_comments_last_author_witness:
  "check_comments (sample_api 0 (sample_repo [] []))
     (sample_issue [] [sample_comment ''carol'' None, sample_comment ''alice'' None])
     [''alice'', ''bob'']
     = Inr []
   \<and> check_comments (sample_api 0 (sample_repo [] []))
       (sample_issue [] [sample_comment ''alice'' None, sample_comment ''carol'' None])
       [''alice'', ''bob'']
     = Inr [Action ''Follow up on this!'' [''alice'', ''bob'']]"
  using check_comments_last_author [of
          "sample_issue [] [sample_comment ''carol'' None, sample_comment ''alice'' None]"
          "sample_api 0 (sample_repo [] [])" "[''alice'', ''bob'']"]
        check_comments_last_author [of
          "sample_issue [] [sample_comment ''alice'' None, sample_comment ''carol'' None]"
          "sample_api 0 (sample_repo [] [])" "[''alice'', ''bob'']"]
  by (simp add: sample_issue_def sample_comment_def sample_user_def)

text \<open>
  C10. For an issue without comments the stale-comment check returns no action: it
  returns, although indexing the empty list of comments at \<open>-1\<close> raises
  \<open>IndexError\<close>, because the index is evaluated only for a non-empty list.
\<close>

theorem check_comments_no_comments:
  "comments issue = [] \<Longrightarrow>
   check_comments self issue maintainers = Inr []
   \<and> getitem (comments issue) (- 1) = Inl IndexError"
  by (simp add: check_comments_def getitem_def)

theorem check_comments_no_comments_witness:
  "check_comments (sample_api 0 (sample_repo [] [])) (sample_issue [] []) [''alice''] = Inr []
   \<and> getitem (comments (sample_issue [] [])) (- 1) = Inl IndexError"
  using check_comments_no_comments [of "sample_issue [] []"
          "sample_api 0 (sample_repo [] [])" "[''alice'']"]
  by (simp add: sample_issue_def)

section \<open>All checks\<close>

lemma within_filter: "within ms (if filter P ms \<noteq> [] then [Action l (filter P ms)] else [])"
  by simp

lemma within_all: "within ms (if c then [Action l ms] else [])"
  by simp

text \<open>
  C8. Every check returns no action or exactly one, and the targets of the one it
  returns are among the maintainers it was given; \<open>check_comments\<close> moreover returns
  and does not raise.
\<close>

theorem checks_within:
  "within ms (check_mentions self m ms) \<and>
   within ms (check_mergeable self pr ms) \<and>
   within ms (check_review self pr ms) \<and>
   within ms (check_if_connected_with_issue self pr ms) \<and>
   within ms (check_close self pr ms) \<and>
   within ms (check_follow_up self pr ms) \<and>
   within ms (check_labels self i ms) \<and>
   (case check_comments self i ms of Inl e \<Rightarrow> False | Inr r \<Rightarrow> within ms r)"
proof -
  have 1: "within ms (check_mentions self m ms)"
    unfolding check_mentions_def Let_def by (rule within_filter)
  have 2: "within ms (check_mergeable self pr ms)"
    unfolding check_mergeable_def by (rule within_all)
  have 3: "within ms (check_review self pr ms)"
    unfolding check_review_def Let_def by (rule within_filter)
  have 4: "within ms (check_if_connected_with_issue self pr ms)"
    unfolding check_if_connected_with_issue_def by (rule within_all)
  have 5: "within ms (check_close self pr ms)"
    unfolding check_close_def by (rule within_all)
  have 6: "within ms (check_follow_up self pr ms)"
    unfolding check_follow_up_def by (rule within_all)
  have 7: "within ms (check_labels self i ms)"
    unfolding check_labels_def by (rule within_all)
  have 8: "case check_comments self i ms of Inl e \<Rightarrow> False | Inr r \<Rightarrow> within ms r"
    by (simp add: check_comments_eq)
  from 1 2 3 4 5 6 7 8 show ?thesis by blast
qed

theorem checks_within_witness:
  "check_review (sample_api 8640000000000 (sample_repo [] []))
     ((sample_pr 0 [])\<lparr>requested_reviewers := [sample_user ''bob'', sample_user ''erin'']\<rparr>)
     [''alice'', ''bob'']
     = [Action ''Review this!'' [''bob'']]
   \<and> within [''alice'', ''bob'']
       (check_review (sample_api 8640000000000 (sample_repo [] []))
          ((sample_pr 0 [])\<lparr>requested_reviewers := [sample_user ''bob'', sample_user ''erin'']\<rparr>)
          [''alice'', ''bob''])
   \<and> check_close (sample_api 8640000000000 (sample_repo [] []))
       ((sample_pr 0 [])\<lparr>requested_reviewers := [sample_user ''bob'', sample_user ''erin'']\<rparr>)
       [''alice'', ''bob'']
     = [Action ''Close this!'' [''alice'', ''bob'']]
   \<and> within [''alice'', ''bob'']
       (check_close (sample_api 8640000000000 (sample_repo [] []))
          ((sample_pr 0 [])\<lparr>requested_reviewers := [sample_user ''bob'', sample_user ''erin'']\<rparr>)
          [''alice'', ''bob''])
   \<and> check_mergeable (sample_api 8640000000000 (sample_repo [] []))
       ((sample_pr 0 [])\<lparr>requested_reviewers := [sample_user ''bob'', sample_user ''erin'']\<rparr>)
       [''alice'', ''bob'']
     = []"
  using checks_within [of "[''alice'', ''bob'']" "sample_api 8640000000000 (sample_repo [] [])"
          "sample_comment ''carol'' None"
          "(sample_pr 0 [])\<lparr>requested_reviewers := [sample_user ''bob'', sample_user ''erin'']\<rparr>"
          "sample_issue [] []"]
  by (simp add: check_review_def check_close_def check_mergeable_def days_def day_def
        sample_api_def sample_pr_def sample_user_def)

section \<open>The loops of the report assembly\<close>

lemma run_filters_concat:
  "run_filters fs self x ms res = res @ concat (map (\<lambda>f. f self x ms) fs)"
  by (induction fs arbitrary: res) simp_all

lemma run_issue_filters:
  "run_filters_exc issue_filters self issue ms [] =
     Inr (check_labels self issue ms
          @ (if comments issue \<noteq> [] \<and> login (user (last (comments issue))) \<notin> set ms
             then [Action ''Follow up on this!'' ms] else [])
          @ check_mentions self issue ms)"
  by (simp add: issue_filters_def check_comments_eq)

lemma comment_nodes_filter:
  "comment_nodes self cs ms acc =
     acc @ map (\<lambda>c. Node (comment_report self c ms) (fetch_comment_info self c))
             (filter (\<lambda>c. comment_report self c ms \<noteq> []) cs)"
  by (induction cs arbitrary: acc) (simp_all add: Let_def)

lemma pr_nodes_filter:
  "pr_nodes self prs ms acc =
     acc @ map (\<lambda>pr. Node (pr_report self pr ms) (fetch_pr_info self pr))
             (filter (\<lambda>pr. state pr = ''open'' \<and> pr_report self pr ms \<noteq> []) prs)"
  by (induction prs arbitrary: acc) (simp_all add: Let_def)

section \<open>Pruning\<close>

lemma pruned_check_mentions: "list_all pruned_entry (check_mentions self m ms)"
  by (simp add: check_mentions_def Let_def)

lemma pruned_pr_filters:
  "f \<in> set pr_filters \<Longrightarrow> list_all pruned_entry (f self pr ms)"
  by (auto simp: pr_filters_def check_mergeable_def check_review_def
        check_if_connected_with_issue_def check_mentions_def check_close_def
        check_follow_up_def Let_def)

lemma pruned_concat:
  "(\<And>f. f \<in> set fs \<Longrightarrow> list_all pruned_entry (g f)) \<Longrightarrow>
   list_all pruned_entry (concat (map g fs))"
  by (induction fs) simp_all

lemma pruned_comment_report: "list_all pruned_entry (comment_report self c ms)"
  by (simp add: comment_report_def comment_filters_def pruned_check_mentions)

lemma pruned_comment_nodes: "list_all pruned_node (comment_nodes self cs ms [])"
  by (simp add: comment_nodes_filter list_all_iff pruned_comment_report [unfolded list_all_iff])

lemma pruned_append_group:
  "list_all pruned_node nodes \<Longrightarrow> list_all pruned_entry res \<Longrightarrow>
   list_all pruned_entry (append_group key nodes res)"
  by (simp add: append_group_def)

lemma pruned_pr_report: "list_all pruned_entry (pr_report self pr ms)"
proof -
  have "list_all pruned_entry (run_filters pr_filters self pr ms [])"
    by (simp add: run_filters_concat pruned_concat pruned_pr_filters)
  then show ?thesis
    by (simp add: pr_report_def Let_def pruned_append_group pruned_comment_nodes)
qed

lemma issue_report_total:
  "\<exists>r. issue_report self issue ms = Inr r \<and> list_all pruned_entry r"
proof -
  have "list_all pruned_entry
          (check_labels self issue ms
           @ (if comments issue \<noteq> [] \<and> login (user (last (comments issue))) \<notin> set ms
              then [Action ''Follow up on this!'' ms] else [])
           @ check_mentions self issue ms)"
    by (simp add: check_labels_def pruned_check_mentions)
  then show ?thesis
    by (simp add: issue_report_def run_issue_filters pruned_append_group pruned_comment_nodes)
qed

lemma pruned_pr_nodes: "list_all pruned_node (pr_nodes self prs ms [])"
  by (simp add: pr_nodes_filter list_all_iff pruned_pr_report [unfolded list_all_iff])

lemma issue_nodes_total:
  "list_all pruned_node acc \<Longrightarrow>
   \<exists>ns. issue_nodes self is ms acc = Inr ns \<and> list_all pruned_node ns"
proof (induction "is" arbitrary: acc)
  case Nil
  then show ?case by simp
next
  case (Cons i "is")
  obtain r where r: "issue_report self i ms = Inr r" "list_all pruned_entry r"
    using issue_report_total by blast
  let ?acc = "if r \<noteq> [] then acc @ [Node r (fetch_issue_info self i)] else acc"
  from Cons.prems r have "list_all pruned_node ?acc" by simp
  from Cons.IH [OF this] Cons.IH [OF Cons.prems] r show ?case by simp
qed

lemma repo_report_total:
  "\<exists>r. repo_report self repo ms = Inr r \<and> list_all pruned_entry r"
proof -
  obtain ns where ns: "issue_nodes self (issues repo) ms [] = Inr ns" "list_all pruned_node ns"
    using issue_nodes_total [of "[]" self "issues repo" ms] by auto
  have "list_all pruned_entry
          (append_group ''prs'' (pr_nodes self (pull_requests repo) ms []) [])"
    by (simp add: pruned_append_group pruned_pr_nodes)
  with ns show ?thesis
    by (simp add: repo_report_def Let_def pruned_append_group)
qed

lemma repo_nodes_total:
  "list_all pruned_node acc \<Longrightarrow>
   \<exists>ns. repo_nodes self repos acc = Inr ns \<and> list_all pruned_node ns"
proof (induction repos arbitrary: acc)
  case Nil
  then show ?case by simp
next
  case (Cons p repos)
  obtain name ms where p: "p = (name, ms)" by (cases p)
  obtain r where r: "repo_report self (GH_CLIENT self (OWNER self) name) ms = Inr r"
      "list_all pruned_entry r"
    using repo_report_total by blast
  let ?acc = "if r \<noteq> [] then
                acc @ [Node r (fetch_repo_info self (GH_CLIENT self (OWNER self) name))]
              else acc"
  from Cons.prems r have "list_all pruned_node ?acc" by simp
  from Cons.IH [OF this] p r show ?case by (simp add: Let_def)
qed

lemma report_total:
  "\<exists>out. report self repos = Inr out \<and> list_all pruned_entry out"
proof -
  obtain ns where "repo_nodes self repos [] = Inr ns" "list_all pruned_node ns"
    using repo_nodes_total [of "[]" self repos] by auto
  then show ?thesis
    by (simp add: report_def pruned_append_group)
qed

lemma pr_report_silent:
  assumes "\<forall>f \<in> set pr_filters. f self pr ms = []"
    and "\<forall>c \<in> set (review_comments pr) \<union> set (issue_comments pr). comment_report self c ms = []"
  shows "pr_report self pr ms = []"
proof -
  from assms(1) have "concat (map (\<lambda>f. f self pr ms) pr_filters) = []"
    by simp
  moreover from assms(2) have "filter (\<lambda>c. comment_report self c ms \<noteq> []) (review_comments pr) = []"
    "filter (\<lambda>c. comment_report self c ms \<noteq> []) (issue_comments pr) = []"
    by (simp_all add: filter_empty_conv)
  ultimately show ?thesis
    by (simp add: pr_report_def Let_def run_filters_concat comment_nodes_filter append_group_def)
qed

lemma repo_report_without_silent_pr:
  assumes "pr_report self pr ms = []"
  shows "repo_report self (repo\<lparr>pull_requests := ps @ pr # qs\<rparr>) ms =
         repo_report self (repo\<lparr>pull_requests := ps @ qs\<rparr>) ms"
  using assms by (simp add: repo_report_def pr_nodes_filter)

text \<open>
  The checks read nothing of \<open>self\<close> but the clock, so the reports of two platforms
  that agree on the clock agree on the same objects.
\<close>

lemma comment_report_clock:
  "comment_report s' c ms = comment_report s c ms"
  by (simp add: comment_report_def comment_filters_def check_mentions_def)

lemma comment_nodes_clock:
  "comment_nodes s' cs ms acc = comment_nodes s cs ms acc"
  by (simp add: comment_nodes_filter comment_report_clock [of s' _ _ s] fetch_comment_info_def)

lemma pr_report_clock:
  "utcnow s' = utcnow s \<Longrightarrow> pr_report s' pr ms = pr_report s pr ms"
  by (simp add: pr_report_def pr_filters_def check_mergeable_def check_review_def
        check_if_connected_with_issue_def check_mentions_def check_close_def
        check_follow_up_def comment_nodes_clock [of s' _ _ _ s])

lemma issue_report_clock:
  "issue_report s' i ms = issue_report s i ms"
  by (simp add: issue_report_def run_issue_filters check_labels_def check_mentions_def
        comment_nodes_clock [of s' _ _ _ s])

lemma pr_nodes_clock:
  "utcnow s' = utcnow s \<Longrightarrow> pr_nodes s' prs ms acc = pr_nodes s prs ms acc"
  by (simp add: pr_nodes_filter pr_report_clock [of s' s] fetch_pr_info_def)

lemma issue_nodes_clock:
  "issue_nodes s' is ms acc = issue_nodes s is ms acc"
  by (induction "is" arbitrary: acc)
     (simp_all add: issue_report_clock [of s' _ _ s] fetch_issue_info_def split: sum.splits)

lemma repo_report_clock:
  "utcnow s' = utcnow s \<Longrightarrow> repo_report s' repo ms = repo_report s repo ms"
  by (simp add: repo_report_def pr_nodes_clock [of s' s] issue_nodes_clock [of s' _ _ _ s])

lemma repo_nodes_replace:
  assumes client: "GH_CLIENT self (OWNER self) name = repo\<lparr>pull_requests := ps @ pr # qs\<rparr>"
    and silent: "\<forall>ms. (name, ms) \<in> set repos \<longrightarrow> pr_report self pr ms = []"
  shows "repo_nodes (replace_repository self name (repo\<lparr>pull_requests := ps @ qs\<rparr>)) repos acc
         = repo_nodes self repos acc"
  using silent
proof (induction repos arbitrary: acc)
  case Nil
  show ?case by simp
next
  case (Cons p repos)
  let ?s = "replace_repository self name (repo\<lparr>pull_requests := ps @ qs\<rparr>)"
  obtain n ms where p: "p = (n, ms)" by (cases p)
  have clock: "utcnow ?s = utcnow self" and owner: "OWNER ?s = OWNER self"
    by (simp_all add: replace_repository_def)
  have IH: "\<And>acc. repo_nodes ?s repos acc = repo_nodes self repos acc"
    using Cons by simp
  show ?case
  proof (cases "n = name")
    case True
    with Cons.prems p have "pr_report self pr ms = []" by simp
    then have "repo_report self (repo\<lparr>pull_requests := ps @ qs\<rparr>) ms
        = repo_report self (GH_CLIENT self (OWNER self) name) ms"
      by (simp add: client repo_report_without_silent_pr)
    moreover have "GH_CLIENT ?s (OWNER ?s) n = repo\<lparr>pull_requests := ps @ qs\<rparr>"
      using True by (simp add: replace_repository_def)
    moreover have "fetch_repo_info ?s (repo\<lparr>pull_requests := ps @ qs\<rparr>)
        = fetch_repo_info self (GH_CLIENT self (OWNER self) name)"
      by (simp add: fetch_repo_info_def client)
    ultimately show ?thesis
      using True p IH by (simp add: repo_report_clock [OF clock] Let_def split: sum.splits)
  next
    case False
    then have "GH_CLIENT ?s (OWNER ?s) n = GH_CLIENT self (OWNER self) n"
      by (simp add: replace_repository_def)
    then show ?thesis
      using p IH
      by (simp add: repo_report_clock [OF clock] Let_def fetch_repo_info_def split: sum.splits)
  qed
qed

lemma report_without_silent_pr:
  assumes "GH_CLIENT self (OWNER self) name = repo\<lparr>pull_requests := ps @ pr # qs\<rparr>"
    and "\<forall>ms. (name, ms) \<in> set repos \<longrightarrow> pr_report self pr ms = []"
  shows "report (replace_repository self name (repo\<lparr>pull_requests := ps @ qs\<rparr>)) repos
         = report self repos"
  by (simp add: report_def repo_nodes_replace [OF assms])

text \<open>
  C2. The report is pruned: whatever the platform holds, \<open>report\<close> returns, every
  group of its result holds at least one node and every node of it has a non-empty
  list of actions. In particular a pull request on which no check fires and none of
  whose comments gets an action has the empty report; and when a pull request of a
  repository has the empty report for the maintainers of that repository, the whole
  report is the one of the platform without that pull request.
\<close>

theorem report_pruned:
  "(\<exists>out. report self repos = Inr out \<and> list_all pruned_entry out)
   \<and> ((\<forall>f \<in> set pr_filters. f self pr ms = [])
        \<and> (\<forall>c \<in> set (review_comments pr) \<union> set (issue_comments pr).
              comment_report self c ms = [])
      \<longrightarrow> pr_report self pr ms = [])
   \<and> (GH_CLIENT self (OWNER self) name = repo\<lparr>pull_requests := ps @ pr # qs\<rparr>
        \<and> (\<forall>maintainers. (name, maintainers) \<in> set repos
              \<longrightarrow> pr_report self pr maintainers = [])
      \<longrightarrow> report (replace_repository self name (repo\<lparr>pull_requests := ps @ qs\<rparr>)) repos
          = report self repos)"
proof (intro conjI impI)
  show "\<exists>out. report self repos = Inr out \<and> list_all pruned_entry out"
    by (rule report_total)
next
  assume "(\<forall>f \<in> set pr_filters. f self pr ms = [])
      \<and> (\<forall>c \<in> set (review_comments pr) \<union> set (issue_comments pr).
            comment_report self c ms = [])"
  then show "pr_report self pr ms = []"
    by (simp add: pr_report_silent)
next
  assume "GH_CLIENT self (OWNER self) name = repo\<lparr>pull_requests := ps @ pr # qs\<rparr>
      \<and> (\<forall>maintainers. (name, maintainers) \<in> set repos
            \<longrightarrow> pr_report self pr maintainers = [])"
  then show "report (replace_repository self name (repo\<lparr>pull_requests := ps @ qs\<rparr>)) repos
      = report self repos"
    by (simp add: report_without_silent_pr)
qed

theorem report_pruned_witness:
  "report sample_platform [(''r1'', [''alice'', ''bob''])] =
     Inr [Group ''repos''
       [Node
          [Group ''prs''
             [Node [Action ''Close this!'' [''alice'', ''bob'']]
                (fetch_pr_info sample_platform stale_pr)],
           Group ''issues''
             [Node [Action ''Skip this for now!'' [''alice'', ''bob''],
                    Action ''Follow up on this!'' [''alice'', ''bob'']]
                (fetch_issue_info sample_platform rfc_issue)]]
          (fetch_repo_info sample_platform (sample_repo [silent_pr, stale_pr] [rfc_issue]))]]
   \<and> (\<exists>out. report sample_platform [(''r1'', [''alice'', ''bob''])] = Inr out
          \<and> list_all pruned_entry out)
   \<and> pr_report sample_platform silent_pr [''alice'', ''bob''] = []
   \<and> report (replace_repository sample_platform ''r1'' (sample_repo [stale_pr] [rfc_issue]))
       [(''r1'', [''alice'', ''bob''])]
     = report sample_platform [(''r1'', [''alice'', ''bob''])]"
proof -
  have comment: "comment_report sample_platform (sample_comment ''carol'' (Some ''looks fine''))
      [''alice'', ''bob''] = []"
    by (simp add: comment_report_def comment_filters_def check_mentions_eq)
  have silent: "\<forall>f \<in> set pr_filters. f sample_platform silent_pr [''alice'', ''bob''] = []"
    by (simp add: pr_filters_def check_mergeable_def check_review_def
          check_if_connected_with_issue_def check_mentions_eq check_close_def
          check_follow_up_def days_def day_def silent_pr_def sample_pr_def
          sample_platform_def sample_api_def sample_now_def sublist_code)
  have quiet: "\<forall>c \<in> set (review_comments silent_pr) \<union> set (issue_comments silent_pr).
      comment_report sample_platform c [''alice'', ''bob''] = []"
    by (simp add: silent_pr_def sample_pr_def comment)
  have silent_report: "pr_report sample_platform silent_pr [''alice'', ''bob''] = []"
    using report_pruned [of sample_platform "[]" silent_pr "[''alice'', ''bob'']"] silent quiet
    by blast
  have stale: "pr_report sample_platform stale_pr [''alice'', ''bob'']
      = [Action ''Close this!'' [''alice'', ''bob'']]"
    by (simp add: pr_report_def pr_filters_def check_mergeable_def check_review_def
          check_if_connected_with_issue_def check_mentions_eq check_close_def
          check_follow_up_def days_def day_def stale_pr_def sample_pr_def
          sample_platform_def sample_api_def sample_now_def sublist_code append_group_def)
  have rfc: "issue_report sample_platform rfc_issue [''alice'', ''bob'']
      = Inr [Action ''Skip this for now!'' [''alice'', ''bob''],
             Action ''Follow up on this!'' [''alice'', ''bob'']]"
    by (simp add: issue_report_def run_issue_filters check_labels_def check_mentions_eq
          rfc_issue_def sample_issue_def sample_comment_def sample_user_def
          comment_report_def comment_filters_def append_group_def)
  have open_pr: "state silent_pr = ''open''" "state stale_pr = ''open''"
    by (simp_all add: silent_pr_def stale_pr_def sample_pr_def)
  have open_issue: "state rfc_issue = ''open''"
    by (simp add: rfc_issue_def sample_issue_def)
  have repo: "repo_report sample_platform (sample_repo [silent_pr, stale_pr] [rfc_issue])
      [''alice'', ''bob'']
      = Inr [Group ''prs''
               [Node [Action ''Close this!'' [''alice'', ''bob'']]
                  (fetch_pr_info sample_platform stale_pr)],
             Group ''issues''
               [Node [Action ''Skip this for now!'' [''alice'', ''bob''],
                      Action ''Follow up on this!'' [''alice'', ''bob'']]
                  (fetch_issue_info sample_platform rfc_issue)]]"
    by (simp add: repo_report_def sample_repo_def open_pr open_issue silent_report stale rfc
          append_group_def)
  have client: "GH_CLIENT sample_platform (OWNER sample_platform) ''r1''
      = sample_repo [silent_pr, stale_pr] [rfc_issue]"
    by (simp add: sample_platform_def sample_api_def)
  have val: "report sample_platform [(''r1'', [''alice'', ''bob''])] =
     Inr [Group ''repos''
       [Node
          [Group ''prs''
             [Node [Action ''Close this!'' [''alice'', ''bob'']]
                (fetch_pr_info sample_platform stale_pr)],
           Group ''issues''
             [Node [Action ''Skip this for now!'' [''alice'', ''bob''],
                    Action ''Follow up on this!'' [''alice'', ''bob'']]
                (fetch_issue_info sample_platform rfc_issue)]]
          (fetch_repo_info sample_platform (sample_repo [silent_pr, stale_pr] [rfc_issue]))]]"
    by (simp add: report_def client repo append_group_def)
  have pruned: "\<exists>out. report sample_platform [(''r1'', [''alice'', ''bob''])] = Inr out
      \<and> list_all pruned_entry out"
    using report_pruned [of sample_platform "[(''r1'', [''alice'', ''bob''])]" silent_pr
        "[''alice'', ''bob'']"]
    by blast
  have same: "report (replace_repository sample_platform ''r1''
        (sample_repo [stale_pr] [rfc_issue])) [(''r1'', [''alice'', ''bob''])]
      = report sample_platform [(''r1'', [''alice'', ''bob''])]"
    using report_pruned [where self = sample_platform
        and repos = "[(''r1'', [''alice'', ''bob''])]" and pr = silent_pr
        and ms = "[''alice'', ''bob'']" and name = "''r1''"
        and repo = "sample_repo [] [rfc_issue]" and ps = "[]" and qs = "[stale_pr]"]
      client silent_report
    by (simp add: sample_repo_def)
  from val pruned silent_report same show ?thesis by blast
qed

end
